theory Spec2Isabelle
  imports Complex_Main "HOL-Library.Product_Lexorder"
begin

section \<open>Data model of \<^verbatim>\<open>data_processor.py\<close>\<close>

text \<open>
  The three operations of \<^verbatim>\<open>WeatherDataProcessor\<close> that bin, classify and
  differentiate a batch of observations work on a pandas \<^verbatim>\<open>DataFrame\<close>.
  A float cell of the frame is a real number or the missing marker NaN, written
  \<open>None\<close>. A real number stands for the exact value of the stored float64; the
  arithmetic of the definitions is exact, and infinities are not part of the embedding.
  Where a statement depends on how the float arithmetic rounds, either the rounded
  operations are a parameter of the definition (\<open>float_ops\<close> below) or the statement is
  restricted to stored values on which the exact and the rounded computation form the
  same groups. Latitude and longitude are always present: \<^verbatim>\<open>clean_weather_data\<close>
  drops the rows where one of them is missing before any of the three operations runs.
\<close>

type_synonym pyfloat = "real option"


record observation =
  latitude :: real
  longitude :: real
  temperature :: pyfloat
  humidity :: pyfloat
  pressure :: pyfloat
  wind_speed :: pyfloat

datatype zone_label = Cold_Zone | Moderate_Zone | Warm_Zone

text \<open>
  The frame: its rows, and the four columns that the operations assign to it
  (\<^verbatim>\<open>df['grid_lat'] = ...\<close> and so on). \<open>None\<close> is a column the frame does not
  have; a present column has one entry per row.
\<close>

record dataframe =
  rows :: "observation list"
  df_grid_lat :: "pyfloat list option"
  df_grid_lon :: "pyfloat list option"
  df_temp_zone :: "zone_label option list option"
  df_temperature_gradient :: "pyfloat list option"

text \<open>One row of the frame returned by \<^verbatim>\<open>aggregate_by_grid\<close>, columns as renamed there.\<close>

record grid_cell =
  grid_lat :: real
  grid_lon :: real
  temp_mean :: pyfloat
  temp_min :: pyfloat
  temp_max :: pyfloat
  station_count :: nat
  humidity_mean :: pyfloat
  pressure_mean :: pyfloat
  wind_speed_mean :: pyfloat
  geometry :: "real \<times> real"

text \<open>One row of the frame returned by \<^verbatim>\<open>create_weather_zones\<close>.\<close>

record zone_row =
  zone :: zone_label
  lat_mean :: pyfloat
  zone_station_count :: nat
  lon_mean :: pyfloat
  zone_temp_mean :: pyfloat
  zone_temp_min :: pyfloat
  zone_temp_max :: pyfloat
  zone_humidity_mean :: pyfloat
  zone_pressure_mean :: pyfloat
  zone_geometry :: "pyfloat \<times> pyfloat"

text \<open>
  The outcomes that are not a returned value: \<open>ValueError\<close> is what \<^verbatim>\<open>pd.cut\<close>
  raises on bin edges that are NaN or not unique; \<open>DivideByZero\<close> is a float division
  whose divisor is zero.
\<close>

datatype error = ValueError | DivideByZero

section \<open>The pandas and numpy operations the code calls\<close>

text \<open>Reductions of a column skip the missing entries (\<^verbatim>\<open>skipna=True\<close>).\<close>

definition dropna :: "pyfloat list \<Rightarrow> real list" where
  "dropna xs = [v. Some v \<leftarrow> xs]"

definition count :: "pyfloat list \<Rightarrow> nat" where
  "count xs = length (dropna xs)"

definition mean :: "pyfloat list \<Rightarrow> pyfloat" where
  "mean xs = (let vs = dropna xs in
     if vs = [] then None else Some (sum_list vs / real (length vs)))"

definition min_skipna :: "pyfloat list \<Rightarrow> pyfloat" where
  "min_skipna xs = (let vs = dropna xs in
     if vs = [] then None else Some (fold min (tl vs) (hd vs)))"

definition max_skipna :: "pyfloat list \<Rightarrow> pyfloat" where
  "max_skipna xs = (let vs = dropna xs in
     if vs = [] then None else Some (fold max (tl vs) (hd vs)))"

text \<open>
  \<^verbatim>\<open>Series.std()\<close> with its default \<^verbatim>\<open>ddof=1\<close>: the sample standard deviation
  of the present values, NaN when fewer than two are present.
\<close>

definition std :: "pyfloat list \<Rightarrow> pyfloat" where
  "std xs = (let vs = dropna xs; n = length vs in
     if n < 2 then None
     else let m = sum_list vs / real n in
       Some (sqrt (sum_list (map (\<lambda>v. (v - m)\<^sup>2) vs) / real (n - 1))))"

text \<open>
  \<^verbatim>\<open>(x // grid_size) * grid_size\<close>: float floor division takes the floor, toward minus
  infinity, of the quotient of the stored values. The product is exact here and rounded
  to a float64 in the code; two different quotients below \<open>2 ^ 52\<close> in magnitude still
  give two different keys there, so the groups are the same. With \<^verbatim>\<open>grid_size = 0\<close>
  the quotient is infinite or NaN and its product with 0 is NaN.
\<close>

definition floordiv_mul :: "real \<Rightarrow> real \<Rightarrow> pyfloat" where
  "floordiv_mul x grid_size =
     (if grid_size = 0 then None else Some (real_of_int \<lfloor>x / grid_size\<rfloor> * grid_size))"

section \<open>\<^verbatim>\<open>aggregate_by_grid\<close>\<close>

text \<open>
  \<^verbatim>\<open>groupby(['grid_lat', 'grid_lon'])\<close> drops the rows whose key has a NaN, forms one
  group per distinct key and orders the groups by key. \<open>group_keys\<close> are those keys,
  \<open>group_rows\<close> the rows of one group, \<open>agg_cell\<close> the aggregation of one group with the
  columns renamed as in the source; \<^verbatim>\<open>station_count\<close> is the \<^verbatim>\<open>'count'\<close> of the
  temperature column.
\<close>

definition grid_key :: "real \<Rightarrow> observation \<Rightarrow> pyfloat \<times> pyfloat" where
  "grid_key grid_size r =
     (floordiv_mul (latitude r) grid_size, floordiv_mul (longitude r) grid_size)"

definition group_keys :: "(pyfloat \<times> pyfloat) list \<Rightarrow> (real \<times> real) list" where
  "group_keys ks = sort (remdups [(a, b). (Some a, Some b) \<leftarrow> ks])"

definition group_rows :: "real \<Rightarrow> observation list \<Rightarrow> real \<times> real \<Rightarrow> observation list" where
  "group_rows grid_size rs k =
     filter (\<lambda>r. grid_key grid_size r = (Some (fst k), Some (snd k))) rs"

definition agg_cell :: "real \<times> real \<Rightarrow> observation list \<Rightarrow> grid_cell" where
  "agg_cell k g =
     \<lparr>grid_lat = fst k, grid_lon = snd k,
      temp_mean = mean (map temperature g),
      temp_min = min_skipna (map temperature g),
      temp_max = max_skipna (map temperature g),
      station_count = count (map temperature g),
      humidity_mean = mean (map humidity g),
      pressure_mean = mean (map pressure g),
      wind_speed_mean = mean (map wind_speed g),
      geometry = (snd k, fst k)\<rparr>"

text \<open>
  The operation returns the frame as the assignments to \<^verbatim>\<open>df['grid_lat']\<close> and
  \<^verbatim>\<open>df['grid_lon']\<close> leave it, and the aggregated frame.
\<close>

definition aggregate_by_grid :: "dataframe \<Rightarrow> real \<Rightarrow> dataframe \<times> grid_cell list" where
  "aggregate_by_grid df grid_size =
     (if rows df = [] then (df, [])
      else
        let df' = df\<lparr>df_grid_lat := Some (map (\<lambda>r. floordiv_mul (latitude r) grid_size) (rows df)),
                     df_grid_lon := Some (map (\<lambda>r. floordiv_mul (longitude r) grid_size) (rows df))\<rparr>;
            agg_data = map (\<lambda>k. agg_cell k (group_rows grid_size (rows df) k))
                         (group_keys (map (grid_key grid_size) (rows df)))
        in (df', agg_data))"

section \<open>\<^verbatim>\<open>create_weather_zones\<close>\<close>

text \<open>
  \<^verbatim>\<open>pd.cut(x, bins=[-inf, lo, hi, inf], labels=[...])\<close> with its default
  \<^verbatim>\<open>right=True\<close>: the bins are \<open>(-inf, lo]\<close>, \<open>(lo, hi]\<close> and \<open>(hi, inf)\<close>, and a
  missing value stays missing. It raises \<^verbatim>\<open>ValueError\<close> when an edge is NaN, when the
  edges decrease, and when two edges are equal.
\<close>

definition cut_value :: "real \<Rightarrow> real \<Rightarrow> pyfloat \<Rightarrow> zone_label option" where
  "cut_value lo hi x = (case x of None \<Rightarrow> None
     | Some v \<Rightarrow> Some (if v \<le> lo then Cold_Zone else if v \<le> hi then Moderate_Zone else Warm_Zone))"

definition pd_cut :: "pyfloat list \<Rightarrow> pyfloat \<Rightarrow> pyfloat \<Rightarrow> error + zone_label option list" where
  "pd_cut xs lo hi = (case (lo, hi) of
       (Some l, Some h) \<Rightarrow>
         if h < l then Inl ValueError
         else if l = h then Inl ValueError
         else Inr (map (cut_value l h) xs)
     | _ \<Rightarrow> Inl ValueError)"

definition fsub :: "pyfloat \<Rightarrow> pyfloat \<Rightarrow> pyfloat" where
  "fsub a b = (case (a, b) of (Some x, Some y) \<Rightarrow> Some (x - y) | _ \<Rightarrow> None)"

definition fadd :: "pyfloat \<Rightarrow> pyfloat \<Rightarrow> pyfloat" where
  "fadd a b = (case (a, b) of (Some x, Some y) \<Rightarrow> Some (x + y) | _ \<Rightarrow> None)"

text \<open>
  \<^verbatim>\<open>groupby('temp_zone', observed=True)\<close>: one group per label that occurs, in the
  order of the categories; rows without a label belong to no group.
\<close>

definition zone_rows :: "zone_label option list \<Rightarrow> observation list \<Rightarrow> zone_label \<Rightarrow> observation list" where
  "zone_rows zs rs z = [r. (l, r) \<leftarrow> zip zs rs, l = Some z]"

definition agg_zone :: "zone_label \<Rightarrow> observation list \<Rightarrow> zone_row" where
  "agg_zone z g =
     \<lparr>zone = z,
      lat_mean = mean (map (\<lambda>r. Some (latitude r)) g),
      zone_station_count = count (map (\<lambda>r. Some (latitude r)) g),
      lon_mean = mean (map (\<lambda>r. Some (longitude r)) g),
      zone_temp_mean = mean (map temperature g),
      zone_temp_min = min_skipna (map temperature g),
      zone_temp_max = max_skipna (map temperature g),
      zone_humidity_mean = mean (map humidity g),
      zone_pressure_mean = mean (map pressure g),
      zone_geometry = (mean (map (\<lambda>r. Some (longitude r)) g), mean (map (\<lambda>r. Some (latitude r)) g))\<rparr>"

definition create_weather_zones :: "dataframe \<Rightarrow> error + dataframe \<times> zone_row list" where
  "create_weather_zones df =
     (if rows df = [] then Inr (df, [])
      else
        let temp_mean = mean (map temperature (rows df));
            temp_std = std (map temperature (rows df))
        in case pd_cut (map temperature (rows df)) (fsub temp_mean temp_std) (fadd temp_mean temp_std) of
             Inl e \<Rightarrow> Inl e
           | Inr zs \<Rightarrow>
               Inr (df\<lparr>df_temp_zone := Some zs\<rparr>,
                    map (\<lambda>z. agg_zone z (zone_rows zs (rows df) z))
                      (filter (\<lambda>z. Some z \<in> set zs) [Cold_Zone, Moderate_Zone, Warm_Zone])))"

text \<open>
  The float arithmetic of the classification, as a parameter. pandas computes
  \<^verbatim>\<open>df['temperature'].mean()\<close> and \<^verbatim>\<open>.std()\<close> in float64 and the code forms the
  two bin edges by a float subtraction and a float addition; each result is rounded, and
  one that is not a finite number is \<open>None\<close>. \<open>temp_zone\<close> is the column that lines 208
  to 216 of the source assign to \<^verbatim>\<open>df['temp_zone']\<close>, for any such arithmetic;
  \<open>exact_arithmetic\<close> is the arithmetic without rounding, which \<open>create_weather_zones\<close>
  above uses.
\<close>

record float_ops =
  series_mean :: "real list \<Rightarrow> pyfloat"
  series_std :: "real list \<Rightarrow> pyfloat"
  float_sub :: "real \<Rightarrow> real \<Rightarrow> pyfloat"
  float_add :: "real \<Rightarrow> real \<Rightarrow> pyfloat"

definition bin_edge :: "(real \<Rightarrow> real \<Rightarrow> pyfloat) \<Rightarrow> pyfloat \<Rightarrow> pyfloat \<Rightarrow> pyfloat" where
  "bin_edge f a b = (case (a, b) of (Some x, Some y) \<Rightarrow> f x y | _ \<Rightarrow> None)"

definition temp_zone :: "float_ops \<Rightarrow> observation list \<Rightarrow> error + zone_label option list" where
  "temp_zone ops rs =
     (let vs = dropna (map temperature rs);
          temp_mean = (if vs = [] then None else series_mean ops vs);
          temp_std = (if length vs < 2 then None else series_std ops vs)
      in pd_cut (map temperature rs)
           (bin_edge (float_sub ops) temp_mean temp_std)
           (bin_edge (float_add ops) temp_mean temp_std))"

definition exact_arithmetic :: float_ops where
  "exact_arithmetic =
     \<lparr>series_mean = (\<lambda>vs. Some (sum_list vs / real (length vs))),
      series_std = (\<lambda>vs. Some (sqrt (sum_list
          (map (\<lambda>v. (v - sum_list vs / real (length vs))\<^sup>2) vs) / real (length vs - 1)))),
      float_sub = (\<lambda>a b. Some (a - b)),
      float_add = (\<lambda>a b. Some (a + b))\<rparr>"

section \<open>\<^verbatim>\<open>calculate_weather_gradients\<close>\<close>

text \<open>
  \<^verbatim>\<open>cdist(coords, coords, metric='euclidean')\<close> row by row, and \<^verbatim>\<open>np.argsort\<close> as
  the indices in ascending order of distance. Among equal distances numpy leaves the
  order open; here it is the order of the indices, and no result below depends on it.
\<close>

definition euclidean :: "observation \<Rightarrow> observation \<Rightarrow> real" where
  "euclidean p q = sqrt ((latitude p - latitude q)\<^sup>2 + (longitude p - longitude q)\<^sup>2)"

definition distances_row :: "observation list \<Rightarrow> observation \<Rightarrow> real list" where
  "distances_row rs p = map (euclidean p) rs"

definition argsort :: "real list \<Rightarrow> nat list" where
  "argsort ds = map snd (sort_key fst (zip ds [0..<length ds]))"

definition nearest_indices :: "observation list \<Rightarrow> observation \<Rightarrow> nat list" where
  "nearest_indices rs p = take 3 (drop 1 (argsort (distances_row rs p)))"

definition np_mean :: "real list \<Rightarrow> real" where
  "np_mean ds = sum_list ds / real (length ds)"

definition neighbor_distance :: "observation list \<Rightarrow> observation \<Rightarrow> real" where
  "neighbor_distance rs p = np_mean (map (\<lambda>j. distances_row rs p ! j) (nearest_indices rs p))"

definition fdiv :: "pyfloat \<Rightarrow> real \<Rightarrow> error + pyfloat" where
  "fdiv a d = (if d = 0 then Inl DivideByZero else Inr (map_option (\<lambda>x. x / d) a))"

text \<open>The body of the loop, for the row \<open>p\<close> of the frame.\<close>

definition gradient :: "observation list \<Rightarrow> observation \<Rightarrow> error + pyfloat" where
  "gradient rs p =
     (if length (nearest_indices rs p) > 0 then
        let temp_diff = fsub (temperature p)
                          (mean (map (\<lambda>j. temperature (rs ! j)) (nearest_indices rs p)));
            distance = neighbor_distance rs p
        in if distance > 0 then fdiv temp_diff distance else Inr (Some 0)
      else Inr (Some 0))"

fun collect :: "(error + 'a) list \<Rightarrow> error + 'a list" where
  "collect [] = Inr []"
| "collect (x # xs) = (case x of Inl e \<Rightarrow> Inl e
     | Inr v \<Rightarrow> (case collect xs of Inl e \<Rightarrow> Inl e | Inr vs \<Rightarrow> Inr (v # vs)))"

text \<open>
  The operation returns the frame it was given: untouched when it has fewer than two
  rows, with the column \<^verbatim>\<open>temperature_gradient\<close> assigned otherwise.
\<close>

definition calculate_weather_gradients :: "dataframe \<Rightarrow> error + dataframe" where
  "calculate_weather_gradients df =
     (if rows df = [] \<or> length (rows df) < 2 then Inr df
      else case collect (map (gradient (rows df)) (rows df)) of
             Inl e \<Rightarrow> Inl e
           | Inr temp_gradients \<Rightarrow> Inr (df\<lparr>df_temperature_gradient := Some temp_gradients\<rparr>))"

section \<open>Example batches\<close>

definition obs :: "real \<Rightarrow> real \<Rightarrow> pyfloat \<Rightarrow> observation" where
  "obs lat lon t = \<lparr>latitude = lat, longitude = lon, temperature = t,
     humidity = None, pressure = None, wind_speed = None\<rparr>"

definition frame :: "observation list \<Rightarrow> dataframe" where
  "frame rs = \<lparr>rows = rs, df_grid_lat = None, df_grid_lon = None,
     df_temp_zone = None, df_temperature_gradient = None\<rparr>"

definition batch_of_temperatures :: "real list \<Rightarrow> dataframe" where
  "batch_of_temperatures ts = frame (map (\<lambda>t. obs 0 0 (Some t)) ts)"

section \<open>Zone classification on too few temperatures\<close>

lemma std_short: "count xs < 2 \<Longrightarrow> std xs = None"
  by (simp add: std_def count_def Let_def)

lemma pd_cut_nan_hi: "pd_cut xs lo None = Inl ValueError"
  by (simp add: pd_cut_def split: option.splits)

lemma fadd_nan: "fadd a None = None"
  by (simp add: fadd_def split: option.splits)

text \<open>
  Claim C1, as the code has it: with fewer than two observations that carry a
  temperature the standard deviation is NaN, and a non-empty batch then fails in
  \<^verbatim>\<open>pd.cut\<close> with \<open>ValueError\<close>; an empty batch is answered by the guard
  \<^verbatim>\<open>if df.empty\<close> with the empty result and no error.
\<close>

theorem create_weather_zones_too_few:
  "count (map temperature (rows df)) < 2 \<Longrightarrow>
   create_weather_zones df = (if rows df = [] then Inr (df, []) else Inl ValueError)"
  by (simp add: create_weather_zones_def Let_def std_short fadd_nan pd_cut_nan_hi)

theorem create_weather_zones_too_few_witness:
  "count (map temperature (rows (frame [obs 0 0 (Some 20)]))) < 2 \<and>
   create_weather_zones (frame [obs 0 0 (Some 20)]) = Inl ValueError"
  using create_weather_zones_too_few [of "frame [obs 0 0 (Some 20)]"]
  by (simp add: frame_def obs_def count_def dropna_def)

text \<open>
  The empty batch has fewer than two temperatures, and classification returns the
  empty result for it instead of failing.
\<close>

theorem create_weather_zones_empty_no_error:
  "count (map temperature (rows (frame []))) < 2 \<and>
   create_weather_zones (frame []) = Inr (frame [], [])"
  by (simp add: frame_def count_def dropna_def create_weather_zones_def)

section \<open>Grid aggregation\<close>


lemma in_present_keys:
  "(a, b) \<in> set [(a, b). (Some a, Some b) \<leftarrow> ks] \<longleftrightarrow> (Some a, Some b) \<in> set ks"
  by (induction ks) (auto split: option.splits)

lemma set_present_keys:
  "set [(a, b). (Some a, Some b) \<leftarrow> ks] = {(a, b). (Some a, Some b) \<in> set ks}"
  using in_present_keys [of _ _ ks] by (auto simp del: set_concat)

lemma set_group_keys:
  "set (group_keys ks) = {(a, b). (Some a, Some b) \<in> set ks}"
  by (simp add: group_keys_def set_present_keys del: set_concat)



text \<open>
  Claim C3 at a batch of two observations in one cell, one of them without a
  temperature: \<^verbatim>\<open>station_count\<close> is 1, the number of observations keyed to the cell is 2.
\<close>

theorem station_count_skips_missing_temperature:
  "snd (aggregate_by_grid (frame [obs 0 0 (Some 20), obs 0 0 None]) 0.01)
     = [agg_cell (0, 0) [obs 0 0 (Some 20), obs 0 0 None]]
   \<and> station_count (agg_cell (0, 0) [obs 0 0 (Some 20), obs 0 0 None]) = 1
   \<and> length (group_rows 0.01 [obs 0 0 (Some 20), obs 0 0 None] (0, 0)) = 2"
  by (simp add: frame_def obs_def aggregate_by_grid_def grid_key_def floordiv_mul_def
      group_keys_def agg_cell_def group_rows_def count_def dropna_def)







section \<open>Zone assignment\<close>

lemma pd_cut_Inr:
  "pd_cut xs lo hi = Inr zs \<Longrightarrow>
     \<exists>l h. lo = Some l \<and> hi = Some h \<and> l < h \<and> zs = map (cut_value l h) xs"
  by (auto simp: pd_cut_def split: option.splits if_splits)

lemma fsub_Some: "fsub a b = Some l \<Longrightarrow> \<exists>x y. a = Some x \<and> b = Some y \<and> l = x - y"
  by (auto simp: fsub_def split: option.splits)

lemma fadd_Some: "fadd a b = Some h \<Longrightarrow> \<exists>x y. a = Some x \<and> b = Some y \<and> h = x + y"
  by (auto simp: fadd_def split: option.splits)

lemma create_weather_zones_Inr:
  assumes "create_weather_zones df = Inr (df', zs)" and "rows df \<noteq> []"
  shows "\<exists>m s. mean (map temperature (rows df)) = Some m
          \<and> std (map temperature (rows df)) = Some s \<and> m - s < m + s
          \<and> df' = df\<lparr>df_temp_zone :=
                 Some (map (cut_value (m - s) (m + s)) (map temperature (rows df)))\<rparr>"
proof -
  let ?ts = "map temperature (rows df)"
  from assms obtain col
    where c: "pd_cut ?ts (fsub (mean ?ts) (std ?ts)) (fadd (mean ?ts) (std ?ts)) = Inr col"
    and d: "df' = df\<lparr>df_temp_zone := Some col\<rparr>"
    by (auto simp: create_weather_zones_def Let_def split: sum.splits)
  from pd_cut_Inr [OF c] obtain l h where
    l: "fsub (mean ?ts) (std ?ts) = Some l" and h: "fadd (mean ?ts) (std ?ts) = Some h"
    and col: "col = map (cut_value l h) ?ts" and lh: "l < h" by blast
  from fsub_Some [OF l] fadd_Some [OF h] obtain m s where
    "mean ?ts = Some m" "std ?ts = Some s" "l = m - s" "h = m + s" by auto
  with d col lh show ?thesis by simp
qed

lemma mean_012: "mean [Some 0, Some 1, Some 2] = Some 1"
  by (simp add: mean_def dropna_def Let_def)

lemma std_012: "std [Some 0, Some 1, Some 2] = Some 1"
  by (simp add: std_def dropna_def Let_def power2_eq_square)

lemma zones_012:
  "create_weather_zones (batch_of_temperatures [0, 1, 2])
     = Inr ((batch_of_temperatures [0, 1, 2])
               \<lparr>df_temp_zone := Some [Some Cold_Zone, Some Moderate_Zone, Some Moderate_Zone]\<rparr>,
            [agg_zone Cold_Zone [obs 0 0 (Some 0)],
             agg_zone Moderate_Zone [obs 0 0 (Some 1), obs 0 0 (Some 2)]])"
  by (simp add: create_weather_zones_def batch_of_temperatures_def frame_def obs_def
      std_012 mean_012 fsub_def fadd_def pd_cut_def cut_value_def zone_rows_def Let_def)

text \<open>
  Claim C4 fails at the lower threshold. In the batch with temperatures 0, 1, 2 the mean
  is 1 and the standard deviation is 1; the temperature 0 equals mean minus std, lies in
  the closed interval, and is assigned Cold.
\<close>

theorem lower_threshold_is_cold:
  "mean (map temperature (rows (batch_of_temperatures [0, 1, 2]))) = Some 1
   \<and> std (map temperature (rows (batch_of_temperatures [0, 1, 2]))) = Some 1
   \<and> temperature (rows (batch_of_temperatures [0, 1, 2]) ! 0) = Some 0
   \<and> (1 - 1 \<le> (0::real) \<and> (0::real) \<le> 1 + 1)
   \<and> create_weather_zones (batch_of_temperatures [0, 1, 2])
     = Inr ((batch_of_temperatures [0, 1, 2])
               \<lparr>df_temp_zone := Some [Some Cold_Zone, Some Moderate_Zone, Some Moderate_Zone]\<rparr>,
            [agg_zone Cold_Zone [obs 0 0 (Some 0)],
             agg_zone Moderate_Zone [obs 0 0 (Some 1), obs 0 0 (Some 2)]])"
  using zones_012 std_012 mean_012 by (simp add: batch_of_temperatures_def frame_def obs_def)

lemma temp_zone_exact:
  "temp_zone exact_arithmetic rs =
     pd_cut (map temperature rs)
       (fsub (mean (map temperature rs)) (std (map temperature rs)))
       (fadd (mean (map temperature rs)) (std (map temperature rs)))"
proof -
  let ?vs = "dropna (map temperature rs)"
  have m: "(if ?vs = [] then None else series_mean exact_arithmetic ?vs)
      = mean (map temperature rs)"
    by (simp add: mean_def exact_arithmetic_def Let_def)
  have s: "(if length ?vs < 2 then None else series_std exact_arithmetic ?vs)
      = std (map temperature rs)"
    by (simp add: std_def exact_arithmetic_def Let_def)
  have sub: "bin_edge (float_sub exact_arithmetic) = fsub"
    by (intro ext) (simp add: bin_edge_def fsub_def exact_arithmetic_def)
  have add: "bin_edge (float_add exact_arithmetic) = fadd"
    by (intro ext) (simp add: bin_edge_def fadd_def exact_arithmetic_def)
  show ?thesis
    unfolding temp_zone_def Let_def m s sub add ..
qed

text \<open>\<open>create_weather_zones\<close> assigns the column \<open>temp_zone\<close> of the exact arithmetic.\<close>

lemma create_weather_zones_temp_zone:
  "rows df \<noteq> [] \<Longrightarrow> create_weather_zones df =
     (case temp_zone exact_arithmetic (rows df) of
        Inl e \<Rightarrow> Inl e
      | Inr zs \<Rightarrow>
          Inr (df\<lparr>df_temp_zone := Some zs\<rparr>,
               map (\<lambda>z. agg_zone z (zone_rows zs (rows df) z))
                 (filter (\<lambda>z. Some z \<in> set zs) [Cold_Zone, Moderate_Zone, Warm_Zone])))"
  by (simp add: create_weather_zones_def temp_zone_exact Let_def)

lemma bin_edge_Some:
  "bin_edge f a b = Some v \<Longrightarrow> \<exists>x y. a = Some x \<and> b = Some y \<and> f x y = Some v"
  by (auto simp: bin_edge_def split: option.splits)

lemma temp_zone_012:
  "temp_zone exact_arithmetic (rows (batch_of_temperatures [0, 1, 2]))
     = Inr [Some Cold_Zone, Some Moderate_Zone, Some Moderate_Zone]"
  by (simp add: temp_zone_exact batch_of_temperatures_def frame_def obs_def
      std_012 mean_012 fsub_def fadd_def pd_cut_def cut_value_def)

text \<open>
  Claim C4, amended to the bins of \<^verbatim>\<open>pd.cut\<close>, which are closed on the right, and to
  the bin edges as the code computes them. Let \<open>m\<close> and \<open>s\<close> be the float64 results of
  \<^verbatim>\<open>mean()\<close> and \<^verbatim>\<open>std()\<close>, \<open>lo\<close> the float difference \<open>m - s\<close> and \<open>hi\<close> the float sum
  \<open>m + s\<close>. When classification succeeds, an observation with temperature \<open>t\<close> is Cold
  when \<open>t \<le> lo\<close>, Moderate when \<open>lo < t \<le> hi\<close>, and Warm when \<open>hi < t\<close>. This holds
  whatever the four float operations round to.
\<close>

theorem temp_zone_assignment:
  assumes "temp_zone ops (rows df) = Inr zs"
    and "i < length (rows df)" and "temperature (rows df ! i) = Some t"
  shows "\<exists>m s lo hi.
           series_mean ops (dropna (map temperature (rows df))) = Some m
         \<and> series_std ops (dropna (map temperature (rows df))) = Some s
         \<and> float_sub ops m s = Some lo \<and> float_add ops m s = Some hi
         \<and> (t \<le> lo \<longrightarrow> zs ! i = Some Cold_Zone)
         \<and> (lo < t \<and> t \<le> hi \<longrightarrow> zs ! i = Some Moderate_Zone)
         \<and> (hi < t \<longrightarrow> zs ! i = Some Warm_Zone)"
proof -
  let ?ts = "map temperature (rows df)"
  let ?vs = "dropna ?ts"
  let ?m = "if ?vs = [] then None else series_mean ops ?vs"
  let ?s = "if length ?vs < 2 then None else series_std ops ?vs"
  from assms(1) have
    c: "pd_cut ?ts (bin_edge (float_sub ops) ?m ?s) (bin_edge (float_add ops) ?m ?s) = Inr zs"
    by (simp add: temp_zone_def Let_def)
  from pd_cut_Inr [OF c] obtain lo hi where
    lo: "bin_edge (float_sub ops) ?m ?s = Some lo"
    and hi: "bin_edge (float_add ops) ?m ?s = Some hi"
    and lh: "lo < hi" and zs: "zs = map (cut_value lo hi) ?ts" by blast
  from bin_edge_Some [OF lo] obtain m s where
    m: "?m = Some m" and s: "?s = Some s" and sub: "float_sub ops m s = Some lo" by blast
  from bin_edge_Some [OF hi] m s have add: "float_add ops m s = Some hi" by auto
  from m have m': "series_mean ops ?vs = Some m" by (simp split: if_splits)
  from s have s': "series_std ops ?vs = Some s" by (simp split: if_splits)
  from assms(2,3) zs have "zs ! i
      = Some (if t \<le> lo then Cold_Zone else if t \<le> hi then Moderate_Zone else Warm_Zone)"
    by (simp add: cut_value_def)
  with m' s' sub add lh show ?thesis by auto
qed

text \<open>
  On the temperatures 0, 1, 2 every float operation is exact: the mean is 1, the standard
  deviation 1, the lower edge 0, and the temperature 0 is Cold.
\<close>

theorem temp_zone_assignment_witness:
  "temp_zone exact_arithmetic (rows (batch_of_temperatures [0, 1, 2]))
     = Inr [Some Cold_Zone, Some Moderate_Zone, Some Moderate_Zone]
   \<and> (0::nat) < length (rows (batch_of_temperatures [0, 1, 2]))
   \<and> temperature (rows (batch_of_temperatures [0, 1, 2]) ! 0) = Some 0
   \<and> float_sub exact_arithmetic 1 1 = Some 0
   \<and> [Some Cold_Zone, Some Moderate_Zone, Some Moderate_Zone] ! 0 = Some Cold_Zone"
proof -
  have h1: "(0::nat) < length (rows (batch_of_temperatures [0, 1, 2]))"
    by (simp add: batch_of_temperatures_def frame_def)
  have h2: "temperature (rows (batch_of_temperatures [0, 1, 2]) ! 0) = Some 0"
    by (simp add: batch_of_temperatures_def frame_def obs_def)
  from temp_zone_assignment [OF temp_zone_012 h1 h2] temp_zone_012 h1 h2 show ?thesis
    by (simp add: exact_arithmetic_def)
qed

lemma sqrt_250_bounds: "15.81 < sqrt 250 \<and> sqrt 250 < 15.82"
proof
  show "15.81 < sqrt 250" by (rule real_less_rsqrt) (simp add: power2_eq_square)
  show "sqrt 250 < 15.82" by (rule real_less_lsqrt) (simp_all add: power2_eq_square)
qed

lemma mean_five: "mean [Some 10, Some 20, Some 30, Some 40, Some 50] = Some 30"
  by (simp add: mean_def dropna_def Let_def)

lemma std_five: "std [Some 10, Some 20, Some 30, Some 40, Some 50] = Some (sqrt 250)"
  by (simp add: std_def dropna_def Let_def power2_eq_square)

text \<open>
  Claim C5 gives the standard deviation as about 14.14 and the thresholds as about 15.86
  and 44.14. The code's \<^verbatim>\<open>std()\<close> divides by \<open>n - 1\<close>: on the temperatures
  10, 20, 30, 40, 50 it is \<open>sqrt 250\<close>, above 15.81, and the thresholds are below 14.19
  and above 45.81.
\<close>

theorem five_temperatures_std_is_sample_std:
  "std (map temperature (rows (batch_of_temperatures [10, 20, 30, 40, 50]))) = Some (sqrt 250)
   \<and> 15.81 < sqrt 250
   \<and> 30 - sqrt 250 < 14.19
   \<and> 45.81 < 30 + sqrt 250"
  using sqrt_250_bounds std_five by (simp add: batch_of_temperatures_def frame_def obs_def)

text \<open>
  Claim C5, amended in its figures: on the temperatures 10, 20, 30, 40, 50 the mean is 30,
  the standard deviation is \<open>sqrt 250\<close> (about 15.81), the thresholds are about 14.19 and
  45.81, and classification assigns 10 to Cold, 20, 30 and 40 to Moderate, and 50 to Warm.
\<close>

theorem five_temperatures_zones:
  "mean (map temperature (rows (batch_of_temperatures [10, 20, 30, 40, 50]))) = Some 30
   \<and> std (map temperature (rows (batch_of_temperatures [10, 20, 30, 40, 50]))) = Some (sqrt 250)
   \<and> 14.18 < 30 - sqrt 250 \<and> 30 - sqrt 250 < 14.19
   \<and> 45.81 < 30 + sqrt 250 \<and> 30 + sqrt 250 < 45.82
   \<and> create_weather_zones (batch_of_temperatures [10, 20, 30, 40, 50])
      = Inr ((batch_of_temperatures [10, 20, 30, 40, 50])
               \<lparr>df_temp_zone := Some [Some Cold_Zone, Some Moderate_Zone, Some Moderate_Zone,
                                       Some Moderate_Zone, Some Warm_Zone]\<rparr>,
             [agg_zone Cold_Zone [obs 0 0 (Some 10)],
              agg_zone Moderate_Zone [obs 0 0 (Some 20), obs 0 0 (Some 30), obs 0 0 (Some 40)],
              agg_zone Warm_Zone [obs 0 0 (Some 50)]])"
  using sqrt_250_bounds
  by (simp add: create_weather_zones_def batch_of_temperatures_def frame_def obs_def
      std_five mean_five fsub_def fadd_def pd_cut_def cut_value_def zone_rows_def Let_def)

section \<open>Gradient estimation\<close>

text \<open>
  Claim C6 fails on a batch of one observation: the guard \<^verbatim>\<open>len(df) < 2\<close> returns
  the frame as it came, and the frame has no \<^verbatim>\<open>temperature_gradient\<close> column.
\<close>

theorem single_observation_has_no_gradient:
  "length (rows (frame [obs 0 0 (Some 20)])) = 1
   \<and> calculate_weather_gradients (frame [obs 0 0 (Some 20)]) = Inr (frame [obs 0 0 (Some 20)])
   \<and> df_temperature_gradient (frame [obs 0 0 (Some 20)]) = None"
  by (simp add: calculate_weather_gradients_def frame_def)

text \<open>
  Claim C6, amended: for a batch of exactly one observation, gradient estimation returns
  the batch unchanged, so no gradient is computed for the observation.
\<close>

theorem single_observation_returned_unchanged:
  "length (rows df) = 1 \<Longrightarrow> calculate_weather_gradients df = Inr df"
  by (simp add: calculate_weather_gradients_def)

theorem single_observation_returned_unchanged_witness:
  "length (rows (frame [obs 0 0 (Some 20)])) = 1
   \<and> calculate_weather_gradients (frame [obs 0 0 (Some 20)]) = Inr (frame [obs 0 0 (Some 20)])"
  using single_observation_returned_unchanged [of "frame [obs 0 0 (Some 20)]"]
  by (simp add: frame_def)

lemma fdiv_positive: "0 < d \<Longrightarrow> fdiv a d = Inr (map_option (\<lambda>x. x / d) a)"
  by (simp add: fdiv_def)

lemma gradient_Inr:
  "gradient rs p = Inr (if 0 < length (nearest_indices rs p) \<and> 0 < neighbor_distance rs p
      then map_option (\<lambda>x. x / neighbor_distance rs p)
             (fsub (temperature p)
                (mean (map (\<lambda>j. temperature (rs ! j)) (nearest_indices rs p))))
      else Some 0)"
  by (simp add: gradient_def Let_def fdiv_positive)

lemma collect_map_Inr: "collect (map (\<lambda>x. Inr (f x)) xs) = Inr (map f xs)"
  by (induction xs) simp_all

lemma calculate_weather_gradients_Inr:
  assumes "2 \<le> length (rows df)"
  shows "calculate_weather_gradients df =
     Inr (df\<lparr>df_temperature_gradient :=
            Some (map (\<lambda>p. projr (gradient (rows df) p)) (rows df))\<rparr>)"
proof -
  have "map (gradient (rows df)) (rows df)
      = map (\<lambda>p. Inr (projr (gradient (rows df) p))) (rows df)"
    by (simp add: gradient_Inr)
  then have "collect (map (gradient (rows df)) (rows df))
      = Inr (map (\<lambda>p. projr (gradient (rows df) p)) (rows df))"
    by (simp only: collect_map_Inr)
  with assms show ?thesis
    by (auto simp: calculate_weather_gradients_def)
qed


text \<open>
  Claim C7: in a batch of at least two observations, an observation whose mean distance
  to its selected neighbours is 0 gets the gradient 0, whatever the temperatures; and no
  division of the operation has a zero divisor, on any batch.
\<close>

theorem zero_distance_gradient:
  "(2 \<le> length (rows df) \<and> i < length (rows df)
      \<and> neighbor_distance (rows df) (rows df ! i) = 0
    \<longrightarrow> (\<exists>gs. calculate_weather_gradients df = Inr (df\<lparr>df_temperature_gradient := Some gs\<rparr>)
            \<and> length gs = length (rows df) \<and> gs ! i = Some 0))
   \<and> gradient (rows df) p \<noteq> Inl DivideByZero
   \<and> calculate_weather_gradients df \<noteq> Inl DivideByZero"
proof (intro conjI impI)
  assume h: "2 \<le> length (rows df) \<and> i < length (rows df)
      \<and> neighbor_distance (rows df) (rows df ! i) = 0"
  let ?gs = "map (\<lambda>p. projr (gradient (rows df) p)) (rows df)"
  from h have "gradient (rows df) (rows df ! i) = Inr (Some 0)"
    by (simp add: gradient_Inr)
  with h have "?gs ! i = Some 0" by simp
  moreover from h have
    "calculate_weather_gradients df = Inr (df\<lparr>df_temperature_gradient := Some ?gs\<rparr>)"
    by (simp add: calculate_weather_gradients_Inr)
  ultimately show
    "\<exists>gs. calculate_weather_gradients df = Inr (df\<lparr>df_temperature_gradient := Some gs\<rparr>)
       \<and> length gs = length (rows df) \<and> gs ! i = Some 0"
    by (intro exI [of _ ?gs]) simp
next
  show "gradient (rows df) p \<noteq> Inl DivideByZero"
    by (simp add: gradient_Inr)
next
  show "calculate_weather_gradients df \<noteq> Inl DivideByZero"
  proof (cases "2 \<le> length (rows df)")
    case True
    then show ?thesis by (simp add: calculate_weather_gradients_Inr)
  next
    case False
    then show ?thesis by (simp add: calculate_weather_gradients_def)
  qed
qed

text \<open>Two coincident stations with temperatures 10 and 50: both gradients are 0.\<close>

theorem zero_distance_gradient_witness:
  "2 \<le> length (rows (frame [obs 0 0 (Some 10), obs 0 0 (Some 50)]))
   \<and> (0::nat) < length (rows (frame [obs 0 0 (Some 10), obs 0 0 (Some 50)]))
   \<and> neighbor_distance (rows (frame [obs 0 0 (Some 10), obs 0 0 (Some 50)]))
        (rows (frame [obs 0 0 (Some 10), obs 0 0 (Some 50)]) ! 0) = 0
   \<and> calculate_weather_gradients (frame [obs 0 0 (Some 10), obs 0 0 (Some 50)])
       = Inr ((frame [obs 0 0 (Some 10), obs 0 0 (Some 50)])
                \<lparr>df_temperature_gradient := Some [Some 0, Some 0]\<rparr>)"
  using zero_distance_gradient [of "frame [obs 0 0 (Some 10), obs 0 0 (Some 50)]" 0]
  by (simp add: frame_def calculate_weather_gradients_def gradient_def neighbor_distance_def
      nearest_indices_def distances_row_def euclidean_def obs_def argsort_def np_mean_def)




section \<open>What the operations do to their input\<close>

text \<open>
  Claim C9 fails: the operations assign their derived columns to the frame they are
  given. After aggregation the input has the columns \<^verbatim>\<open>grid_lat\<close> and
  \<^verbatim>\<open>grid_lon\<close>, gradient estimation returns the input frame itself with the column
  \<^verbatim>\<open>temperature_gradient\<close> added, and after classification the input has the
  column \<^verbatim>\<open>temp_zone\<close>.
\<close>

theorem operations_write_into_input:
  "fst (aggregate_by_grid (frame [obs 0 0 (Some 10), obs 0 4 (Some 30)]) 1)
     = (frame [obs 0 0 (Some 10), obs 0 4 (Some 30)])
         \<lparr>df_grid_lat := Some [Some 0, Some 0], df_grid_lon := Some [Some 0, Some 4]\<rparr>
   \<and> fst (aggregate_by_grid (frame [obs 0 0 (Some 10), obs 0 4 (Some 30)]) 1)
     \<noteq> frame [obs 0 0 (Some 10), obs 0 4 (Some 30)]
   \<and> calculate_weather_gradients (frame [obs 0 0 (Some 10), obs 0 4 (Some 30)])
     = Inr ((frame [obs 0 0 (Some 10), obs 0 4 (Some 30)])\<lparr>df_temperature_gradient := Some [Some (-5), Some 5]\<rparr>)
   \<and> calculate_weather_gradients (frame [obs 0 0 (Some 10), obs 0 4 (Some 30)])
     \<noteq> Inr (frame [obs 0 0 (Some 10), obs 0 4 (Some 30)])
   \<and> create_weather_zones (batch_of_temperatures [0, 1, 2])
     = Inr ((batch_of_temperatures [0, 1, 2])
               \<lparr>df_temp_zone := Some [Some Cold_Zone, Some Moderate_Zone, Some Moderate_Zone]\<rparr>,
            [agg_zone Cold_Zone [obs 0 0 (Some 0)],
             agg_zone Moderate_Zone [obs 0 0 (Some 1), obs 0 0 (Some 2)]])
   \<and> (batch_of_temperatures [0, 1, 2])
        \<lparr>df_temp_zone := Some [Some Cold_Zone, Some Moderate_Zone, Some Moderate_Zone]\<rparr>
     \<noteq> batch_of_temperatures [0, 1, 2]"
proof -
  have "(batch_of_temperatures [0, 1, 2])
        \<lparr>df_temp_zone := Some [Some Cold_Zone, Some Moderate_Zone, Some Moderate_Zone]\<rparr>
     \<noteq> batch_of_temperatures [0, 1, 2]"
    by (simp add: batch_of_temperatures_def frame_def)
  with zones_012 show ?thesis
    by (simp add: frame_def calculate_weather_gradients_def gradient_def neighbor_distance_def
        nearest_indices_def distances_row_def euclidean_def obs_def argsort_def np_mean_def
        fsub_def mean_def dropna_def fdiv_def aggregate_by_grid_def floordiv_mul_def Let_def)
qed

text \<open>
  Claim C9, amended: every operation leaves the rows of its input as they were and
  changes the frame only by the columns it assigns: \<^verbatim>\<open>grid_lat\<close> and \<^verbatim>\<open>grid_lon\<close>
  in aggregation and \<^verbatim>\<open>temp_zone\<close> in classification, on a non-empty batch, and
  \<^verbatim>\<open>temperature_gradient\<close> in gradient estimation on a batch of at least two
  observations; otherwise the frame is unchanged.
\<close>

theorem operations_frame:
  "fst (aggregate_by_grid df grid_size) =
     (if rows df = [] then df
      else df\<lparr>df_grid_lat := Some (map (\<lambda>r. floordiv_mul (latitude r) grid_size) (rows df)),
              df_grid_lon := Some (map (\<lambda>r. floordiv_mul (longitude r) grid_size) (rows df))\<rparr>)
   \<and> (create_weather_zones df = Inr (df', zs) \<longrightarrow>
        (if rows df = [] then df' = df
         else \<exists>col. length col = length (rows df) \<and> df' = df\<lparr>df_temp_zone := Some col\<rparr>))
   \<and> (calculate_weather_gradients df = Inr df'' \<longrightarrow>
        (if length (rows df) < 2 then df'' = df
         else \<exists>gs. length gs = length (rows df) \<and> df'' = df\<lparr>df_temperature_gradient := Some gs\<rparr>))"
proof (intro conjI impI)
  show "fst (aggregate_by_grid df grid_size) =
     (if rows df = [] then df
      else df\<lparr>df_grid_lat := Some (map (\<lambda>r. floordiv_mul (latitude r) grid_size) (rows df)),
              df_grid_lon := Some (map (\<lambda>r. floordiv_mul (longitude r) grid_size) (rows df))\<rparr>)"
    by (simp add: aggregate_by_grid_def Let_def)
next
  assume z: "create_weather_zones df = Inr (df', zs)"
  show "if rows df = [] then df' = df
         else \<exists>col. length col = length (rows df) \<and> df' = df\<lparr>df_temp_zone := Some col\<rparr>"
  proof (cases "rows df = []")
    case True
    with z show ?thesis by (simp add: create_weather_zones_def)
  next
    case False
    from create_weather_zones_Inr [OF z False] obtain m s where
      "df' = df\<lparr>df_temp_zone :=
              Some (map (cut_value (m - s) (m + s)) (map temperature (rows df)))\<rparr>"
      by blast
    with False show ?thesis
      by (intro exI [of _ "map (cut_value (m - s) (m + s)) (map temperature (rows df))"] | simp)+
  qed
next
  assume g: "calculate_weather_gradients df = Inr df''"
  show "if length (rows df) < 2 then df'' = df
         else \<exists>gs. length gs = length (rows df) \<and> df'' = df\<lparr>df_temperature_gradient := Some gs\<rparr>"
  proof (cases "length (rows df) < 2")
    case True
    with g show ?thesis by (auto simp: calculate_weather_gradients_def)
  next
    case False
    then have "2 \<le> length (rows df)" by simp
    from calculate_weather_gradients_Inr [OF this] g
    have "df'' = df\<lparr>df_temperature_gradient :=
            Some (map (\<lambda>p. projr (gradient (rows df) p)) (rows df))\<rparr>"
      by simp
    with False show ?thesis
      by (intro exI [of _ "map (\<lambda>p. projr (gradient (rows df) p)) (rows df)"] | simp)+
  qed
qed

lemma gradients_012:
  "calculate_weather_gradients (batch_of_temperatures [0, 1, 2])
     = Inr ((batch_of_temperatures [0, 1, 2])\<lparr>df_temperature_gradient := Some [Some 0, Some 0, Some 0]\<rparr>)"
  by (simp add: batch_of_temperatures_def frame_def calculate_weather_gradients_def gradient_def neighbor_distance_def nearest_indices_def
     distances_row_def euclidean_def obs_def argsort_def np_mean_def)

theorem operations_frame_witness:
  "create_weather_zones (batch_of_temperatures [0, 1, 2])
     = Inr ((batch_of_temperatures [0, 1, 2])
               \<lparr>df_temp_zone := Some [Some Cold_Zone, Some Moderate_Zone, Some Moderate_Zone]\<rparr>,
            [agg_zone Cold_Zone [obs 0 0 (Some 0)],
             agg_zone Moderate_Zone [obs 0 0 (Some 1), obs 0 0 (Some 2)]])
   \<and> calculate_weather_gradients (batch_of_temperatures [0, 1, 2])
     = Inr ((batch_of_temperatures [0, 1, 2])\<lparr>df_temperature_gradient := Some [Some 0, Some 0, Some 0]\<rparr>)
   \<and> fst (aggregate_by_grid (batch_of_temperatures [0, 1, 2]) 1)
     = (batch_of_temperatures [0, 1, 2])
         \<lparr>df_grid_lat := Some [Some 0, Some 0, Some 0], df_grid_lon := Some [Some 0, Some 0, Some 0]\<rparr>
   \<and> rows ((batch_of_temperatures [0, 1, 2])
               \<lparr>df_temp_zone := Some [Some Cold_Zone, Some Moderate_Zone, Some Moderate_Zone]\<rparr>)
     = rows (batch_of_temperatures [0, 1, 2])"
  using operations_frame [of "batch_of_temperatures [0, 1, 2]" 1
      "(batch_of_temperatures [0, 1, 2])
               \<lparr>df_temp_zone := Some [Some Cold_Zone, Some Moderate_Zone, Some Moderate_Zone]\<rparr>"
      "[agg_zone Cold_Zone [obs 0 0 (Some 0)],
             agg_zone Moderate_Zone [obs 0 0 (Some 1), obs 0 0 (Some 2)]]"
      "(batch_of_temperatures [0, 1, 2])\<lparr>df_temperature_gradient := Some [Some 0, Some 0, Some 0]\<rparr>"]
    zones_012 gradients_012
  by (simp add: batch_of_temperatures_def frame_def obs_def floordiv_mul_def)

end
